theory Spec2Isabelle
  imports Main
begin

section \<open>Credential verification of \<^verbatim>\<open>login.py\<close>\<close>

text \<open>
  The program is one Python script. Its core, \<^verbatim>\<open>verify_credentials(email, password)\<close>,
  opens a MySQL connection, selects the row of \<^verbatim>\<open>users\<close> whose \<^verbatim>\<open>email\<close> column equals the
  argument, closes cursor and connection, and compares the password with the stored
  hash through passlib's \<^verbatim>\<open>CryptContext.verify\<close>. It returns a pair
  \<^verbatim>\<open>(ok, info)\<close>. The whole body is inside \<^verbatim>\<open>try: ... except Exception as e\<close>.

  The database driver and the hasher are outside the repository. They are modelled
  as an environment that fixes, for every call the script makes, whether the call
  returns (and what) or raises. The script's own control flow is modelled in full:
  every call may raise, and a raise skips the rest of the \<^verbatim>\<open>try\<close> block.
\<close>

subsection \<open>Values\<close>

text \<open>
  An exception raised by a collaborator. Both libraries raise subclasses of Python's
  \<^verbatim>\<open>Exception\<close> only, which is what the \<^verbatim>\<open>except\<close> clause catches; the script uses nothing
  of the exception but \<^verbatim>\<open>str(e)\<close>.
\<close>

datatype exn = Exception (str_of: string)

text \<open>
  A row as the dictionary cursor returns it for
  \<^verbatim>\<open>SELECT id, email, hashed_password\<close>: the three selected columns.
\<close>

record row =
  row_id :: int
  row_email :: string
  row_hashed_password :: string

text \<open>
  The second component of the returned pair is either \<^verbatim>\<open>row["id"]\<close> or a message string.
\<close>

datatype info = UserId int | Message string

type_synonym result = "bool \<times> info"

subsection \<open>The collaborators\<close>

text \<open>
  For a call whose value the script ignores, the environment gives \<open>None\<close> when the call
  returns and \<open>Some e\<close> when it raises \<open>e\<close>. \<open>fetchone_res\<close> answers for the statement and
  parameters the cursor has executed: \<open>Inr None\<close> is Python's \<^verbatim>\<open>None\<close> (no row),
  \<open>Inr (Some r)\<close> a row. \<open>pwd_verify_res p h\<close> is \<^verbatim>\<open>pwd_context.verify(p, h)\<close>.
\<close>

record env =
  connect_exn :: "exn option"
  cursor_exn :: "exn option"
  execute_exn :: "string \<Rightarrow> string list \<Rightarrow> exn option"
  fetchone_res :: "string \<Rightarrow> string list \<Rightarrow> exn + row option"
  cur_close_exn :: "exn option"
  conn_close_exn :: "exn option"
  pwd_verify_res :: "string \<Rightarrow> string \<Rightarrow> exn + bool"

text \<open>
  The observable state: whether the connection and the cursor the script acquired are
  still open, and the calls made to the collaborators so far, in order, with their
  arguments. A call is recorded when it is made, whether it then returns or raises.
  A \<^verbatim>\<open>close()\<close> that raises leaves its resource open.
\<close>

datatype event =
    Connect
  | Cursor
  | Execute string "string list"
  | Fetchone
  | CurClose
  | ConnClose
  | PwdVerify string string

record world =
  conn_open :: bool
  cur_open :: bool
  trace :: "event list"

definition fresh :: world where
  "fresh = \<lparr>conn_open = False, cur_open = False, trace = []\<rparr>"

subsection \<open>Sequencing with exceptions\<close>

type_synonym 'a action = "world \<Rightarrow> (exn + 'a) \<times> world"

definition returns :: "'a \<Rightarrow> 'a action" where
  "returns x w = (Inr x, w)"

definition bind :: "'a action \<Rightarrow> ('a \<Rightarrow> 'b action) \<Rightarrow> 'b action" where
  "bind m f w = (case m w of (Inl e, w') \<Rightarrow> (Inl e, w') | (Inr x, w') \<Rightarrow> f x w')"

text \<open>
  \<^verbatim>\<open>try: m  except Exception as e: return h(e)\<close>, where the handler itself only builds
  a value.
\<close>

definition try_except :: "'a action \<Rightarrow> (exn \<Rightarrow> 'a) \<Rightarrow> world \<Rightarrow> 'a \<times> world" where
  "try_except m h w = (case m w of (Inl e, w') \<Rightarrow> (h e, w') | (Inr x, w') \<Rightarrow> (x, w'))"

definition log :: "event \<Rightarrow> world \<Rightarrow> world" where
  "log ev w = w\<lparr>trace := trace w @ [ev]\<rparr>"

subsection \<open>The calls of the script\<close>

definition mysql_connect :: "env \<Rightarrow> unit action" where
  "mysql_connect env w =
     (case connect_exn env of
        Some e \<Rightarrow> (Inl e, log Connect w)
      | None \<Rightarrow> (Inr (), (log Connect w)\<lparr>conn_open := True\<rparr>))"

definition conn_cursor :: "env \<Rightarrow> unit action" where
  "conn_cursor env w =
     (case cursor_exn env of
        Some e \<Rightarrow> (Inl e, log Cursor w)
      | None \<Rightarrow> (Inr (), (log Cursor w)\<lparr>cur_open := True\<rparr>))"

definition cur_execute :: "env \<Rightarrow> string \<Rightarrow> string list \<Rightarrow> unit action" where
  "cur_execute env sql params w =
     (case execute_exn env sql params of
        Some e \<Rightarrow> (Inl e, log (Execute sql params) w)
      | None \<Rightarrow> (Inr (), log (Execute sql params) w))"

definition cur_fetchone :: "env \<Rightarrow> string \<Rightarrow> string list \<Rightarrow> row option action" where
  "cur_fetchone env sql params w =
     (case fetchone_res env sql params of
        Inl e \<Rightarrow> (Inl e, log Fetchone w)
      | Inr r \<Rightarrow> (Inr r, log Fetchone w))"

definition cur_close :: "env \<Rightarrow> unit action" where
  "cur_close env w =
     (case cur_close_exn env of
        Some e \<Rightarrow> (Inl e, log CurClose w)
      | None \<Rightarrow> (Inr (), (log CurClose w)\<lparr>cur_open := False\<rparr>))"

definition conn_close :: "env \<Rightarrow> unit action" where
  "conn_close env w =
     (case conn_close_exn env of
        Some e \<Rightarrow> (Inl e, log ConnClose w)
      | None \<Rightarrow> (Inr (), (log ConnClose w)\<lparr>conn_open := False\<rparr>))"

definition pwd_context_verify :: "env \<Rightarrow> string \<Rightarrow> string \<Rightarrow> bool action" where
  "pwd_context_verify env password hash w =
     (case pwd_verify_res env password hash of
        Inl e \<Rightarrow> (Inl e, log (PwdVerify password hash) w)
      | Inr b \<Rightarrow> (Inr b, log (PwdVerify password hash) w))"

subsection \<open>\<^verbatim>\<open>verify_credentials\<close>\<close>

definition select_user :: string where
  "select_user = ''SELECT id, email, hashed_password FROM users WHERE email=%s''"

definition verify_credentials :: "env \<Rightarrow> string \<Rightarrow> string \<Rightarrow> world \<Rightarrow> result \<times> world" where
  "verify_credentials env email password =
     try_except
       (bind (mysql_connect env) (\<lambda>_.
        bind (conn_cursor env) (\<lambda>_.
        bind (cur_execute env select_user [email]) (\<lambda>_.
        bind (cur_fetchone env select_user [email]) (\<lambda>row.
        bind (cur_close env) (\<lambda>_.
        bind (conn_close env) (\<lambda>_.
          case row of
            None \<Rightarrow> returns (False, Message ''User not found'')
          | Some r \<Rightarrow>
              bind (pwd_context_verify env password (row_hashed_password r)) (\<lambda>ok.
                if ok then returns (True, UserId (row_id r))
                else returns (False, Message ''Incorrect password'')))))))))
       (\<lambda>e. (False, Message (''DB error: '' @ str_of e)))"

subsection \<open>What the store calls of one lookup yield\<close>

text \<open>
  Lines 19 to 24 of the script are the lookup: connect, cursor, execute, fetchone,
  close the cursor, close the connection. \<open>store_lookup\<close> reads off the environment what
  these six calls yield for an identifier: the first exception raised, in the order
  of the calls, or else the fetched row (or no row).
\<close>

definition store_lookup :: "env \<Rightarrow> string \<Rightarrow> exn + row option" where
  "store_lookup env email =
     (case connect_exn env of Some e \<Rightarrow> Inl e | None \<Rightarrow>
     (case cursor_exn env of Some e \<Rightarrow> Inl e | None \<Rightarrow>
     (case execute_exn env select_user [email] of Some e \<Rightarrow> Inl e | None \<Rightarrow>
     (case fetchone_res env select_user [email] of Inl e \<Rightarrow> Inl e | Inr r \<Rightarrow>
     (case cur_close_exn env of Some e \<Rightarrow> Inl e | None \<Rightarrow>
     (case conn_close_exn env of Some e \<Rightarrow> Inl e | None \<Rightarrow> Inr r))))))"

text \<open>The six calls of a lookup that ran to its end, as they appear in the trace.\<close>

definition lookup_calls :: "string \<Rightarrow> event list" where
  "lookup_calls email =
     [Connect, Cursor, Execute select_user [email], Fetchone, CurClose, ConnClose]"

text \<open>
  The calls one run of \<open>verify_credentials\<close> makes, read off the environment: the run
  stops at the first call that raises, and the hasher is called only after a lookup
  that ran to its end and fetched a row.
\<close>

definition calls_made :: "env \<Rightarrow> string \<Rightarrow> string \<Rightarrow> event list" where
  "calls_made env email password =
     (case connect_exn env of Some e \<Rightarrow> [Connect] | None \<Rightarrow>
     (case cursor_exn env of Some e \<Rightarrow> [Connect, Cursor] | None \<Rightarrow>
     (case execute_exn env select_user [email] of
        Some e \<Rightarrow> [Connect, Cursor, Execute select_user [email]] | None \<Rightarrow>
     (case fetchone_res env select_user [email] of
        Inl e \<Rightarrow> [Connect, Cursor, Execute select_user [email], Fetchone] | Inr found \<Rightarrow>
     (case cur_close_exn env of
        Some e \<Rightarrow> [Connect, Cursor, Execute select_user [email], Fetchone, CurClose] | None \<Rightarrow>
     (case conn_close_exn env of
        Some e \<Rightarrow> lookup_calls email | None \<Rightarrow>
     (case found of None \<Rightarrow> lookup_calls email
      | Some r \<Rightarrow> lookup_calls email @ [PwdVerify password (row_hashed_password r)])))))))"

subsection \<open>The caller, \<^verbatim>\<open>on_login\<close>\<close>

text \<open>
  \<^verbatim>\<open>str.strip()\<close> removes leading and trailing whitespace. A \<open>char\<close> stands for a code
  point below 256; of these Python counts as whitespace 0x09 to 0x0D, 0x1C to 0x20,
  0x85 and 0xA0.
\<close>

definition py_isspace :: "char \<Rightarrow> bool" where
  "py_isspace c =
     ((of_char c :: nat) \<in> {9, 10, 11, 12, 13, 28, 29, 30, 31, 32, 133, 160})"

definition py_strip :: "string \<Rightarrow> string" where
  "py_strip s = rev (dropWhile py_isspace (rev (dropWhile py_isspace s)))"

text \<open>\<^verbatim>\<open>str\<close> of an integer, as the f-string and \<^verbatim>\<open>str(info)\<close> format it.\<close>

fun str_nat :: "nat \<Rightarrow> string" where
  "str_nat n =
     (if n < 10 then [char_of (48 + n)]
      else str_nat (n div 10) @ [char_of (48 + n mod 10)])"

declare str_nat.simps [simp del]

definition str_int :: "int \<Rightarrow> string" where
  "str_int i = (if i < 0 then CHR ''-'' # str_nat (nat (- i)) else str_nat (nat i))"

fun py_str :: "info \<Rightarrow> string" where
  "py_str (UserId n) = str_int n"
| "py_str (Message s) = s"

text \<open>The message box the handler shows: title and text.\<close>

datatype dialog = ShowInfo string string | ShowError string string

definition on_login :: "env \<Rightarrow> string \<Rightarrow> string \<Rightarrow> world \<Rightarrow> dialog \<times> world" where
  "on_login env entry_email entry_password w =
     (let email = py_strip entry_email;
          password = py_strip entry_password;
          ((ok, info), w') = verify_credentials env email password w
      in (if ok then ShowInfo ''Success'' (''Logged in! user id: '' @ py_str info)
          else ShowError ''Error'' (py_str info), w'))"

subsection \<open>Concrete environments\<close>

text \<open>
  The scenario of the specification: one record for \<^verbatim>\<open>alice@example.com\<close> with id 42,
  whose hash the hasher certifies for the secret \<^verbatim>\<open>s3cr3t\<close> only. A second record,
  for \<^verbatim>\<open>carol@example.com\<close>, holds a blob that is no hash: the hasher raises on it.
\<close>

definition alice :: row where
  "alice = \<lparr>row_id = 42, row_email = ''alice@example.com'',
            row_hashed_password = ''$2b$12$alice''\<rparr>"

definition carol :: row where
  "carol = \<lparr>row_id = 7, row_email = ''carol@example.com'',
            row_hashed_password = ''plaintext''\<rparr>"

definition demo_env :: env where
  "demo_env =
     \<lparr>connect_exn = None,
      cursor_exn = None,
      execute_exn = (\<lambda>sql params. None),
      fetchone_res = (\<lambda>sql params.
         if params = [''alice@example.com''] then Inr (Some alice)
         else if params = [''carol@example.com''] then Inr (Some carol)
         else Inr None),
      cur_close_exn = None,
      conn_close_exn = None,
      pwd_verify_res = (\<lambda>password hash.
         if hash = ''$2b$12$alice'' then Inr (password = ''s3cr3t'')
         else Inl (Exception ''hash could not be identified''))\<rparr>"

text \<open>The same store with the server down: \<^verbatim>\<open>connect\<close> raises.\<close>

definition unreachable_env :: env where
  "unreachable_env =
     demo_env\<lparr>connect_exn := Some (Exception ''2003: cannot connect to MySQL server'')\<rparr>"

text \<open>The same store with the query failing: \<^verbatim>\<open>execute\<close> raises.\<close>

definition query_fails_env :: env where
  "query_fails_env =
     demo_env\<lparr>execute_exn :=
       (\<lambda>sql params. Some (Exception ''1146 (42S02): table smartbus.users does not exist''))\<rparr>"

section \<open>Auxiliary facts\<close>

lemmas step_defs =
  verify_credentials_def try_except_def bind_def returns_def log_def
  mysql_connect_def conn_cursor_def cur_execute_def cur_fetchone_def
  cur_close_def conn_close_def pwd_context_verify_def

lemma verify_store_raises:
  assumes "store_lookup env email = Inl e"
  shows "fst (verify_credentials env email password w) =
           (False, Message (''DB error: '' @ str_of e))"
  using assms
  by (auto simp: step_defs store_lookup_def split: option.splits sum.splits)

lemma verify_no_row:
  assumes "store_lookup env email = Inr None"
  shows "verify_credentials env email password w =
           ((False, Message ''User not found''),
            w\<lparr>conn_open := False, cur_open := False,
              trace := trace w @ lookup_calls email\<rparr>)"
  using assms
  by (auto simp: step_defs store_lookup_def lookup_calls_def
           split: option.splits sum.splits)

lemma verify_row:
  assumes "store_lookup env email = Inr (Some r)"
  shows "verify_credentials env email password w =
           ((case pwd_verify_res env password (row_hashed_password r) of
               Inl e \<Rightarrow> (False, Message (''DB error: '' @ str_of e))
             | Inr ok \<Rightarrow>
                 if ok then (True, UserId (row_id r))
                 else (False, Message ''Incorrect password'')),
            w\<lparr>conn_open := False, cur_open := False,
              trace := trace w @ lookup_calls email
                       @ [PwdVerify password (row_hashed_password r)]\<rparr>)"
  using assms
  by (auto simp: step_defs store_lookup_def lookup_calls_def
           split: option.splits sum.splits)

lemma demo_lookup_alice: "store_lookup demo_env ''alice@example.com'' = Inr (Some alice)"
  by (simp add: store_lookup_def demo_env_def)

lemma demo_lookup_carol: "store_lookup demo_env ''carol@example.com'' = Inr (Some carol)"
  by (simp add: store_lookup_def demo_env_def)

lemma demo_lookup_bob: "store_lookup demo_env ''bob@example.com'' = Inr None"
  by (simp add: store_lookup_def demo_env_def)

lemma unreachable_lookup:
  "store_lookup unreachable_env email =
     Inl (Exception ''2003: cannot connect to MySQL server'')"
  by (simp add: store_lookup_def unreachable_env_def)

lemma demo_hasher_accepts:
  "pwd_verify_res demo_env ''s3cr3t'' (row_hashed_password alice) = Inr True"
  by (simp add: demo_env_def alice_def)

lemma demo_hasher_rejects:
  "pwd_verify_res demo_env ''wrong'' (row_hashed_password alice) = Inr False"
  by (simp add: demo_env_def alice_def)

lemma demo_hasher_raises:
  "pwd_verify_res demo_env password (row_hashed_password carol)
     = Inl (Exception ''hash could not be identified'')"
  by (simp add: demo_env_def carol_def)

lemma verify_trace:
  "trace (snd (verify_credentials env email password w))
     = trace w @ calls_made env email password"
  by (simp add: step_defs calls_made_def lookup_calls_def split: option.splits sum.splits)

lemma calls_made_execute:
  "Execute sql params \<in> set (calls_made env email password)
     \<Longrightarrow> sql = select_user \<and> params = [email]"
  by (simp add: calls_made_def lookup_calls_def split: option.splits sum.splits)

lemma calls_made_pwd_verify:
  "PwdVerify p h \<in> set (calls_made env email password) \<Longrightarrow> p = password"
  by (simp add: calls_made_def lookup_calls_def split: option.splits sum.splits)

lemma calls_made_has_execute:
  "connect_exn env = None \<Longrightarrow> cursor_exn env = None
     \<Longrightarrow> Execute select_user [email] \<in> set (calls_made env email password)"
  by (simp add: calls_made_def lookup_calls_def split: option.splits sum.splits)

lemma calls_made_has_pwd_verify:
  "store_lookup env email = Inr (Some r)
     \<Longrightarrow> PwdVerify password (row_hashed_password r) \<in> set (calls_made env email password)"
  by (simp add: calls_made_def store_lookup_def lookup_calls_def
           split: option.splits sum.splits)

section \<open>The claims\<close>

text \<open>
  C1. For every identifier and secret, \<open>verify_credentials\<close> reports success (first
  component \<open>True\<close>) if and only if the lookup yields a record for the identifier and
  the hasher returns \<open>True\<close> for the supplied secret and that record's stored hash.
  No other path reports success.
\<close>

theorem success_iff_record_and_match:
  "fst (fst (verify_credentials env email password w)) \<longleftrightarrow>
     (\<exists>r. store_lookup env email = Inr (Some r) \<and>
          pwd_verify_res env password (row_hashed_password r) = Inr True)"
proof (cases "store_lookup env email")
  case (Inl e)
  then show ?thesis
    by (simp add: verify_store_raises)
next
  case (Inr found)
  show ?thesis
  proof (cases found)
    case None
    with Inr show ?thesis
      by (simp add: verify_no_row)
  next
    case (Some r)
    with Inr show ?thesis
      by (simp add: verify_row split: sum.splits)
  qed
qed

theorem success_iff_record_and_match_witness:
  "fst (fst (verify_credentials demo_env ''alice@example.com'' ''s3cr3t'' fresh)) \<and>
   \<not> fst (fst (verify_credentials demo_env ''alice@example.com'' ''wrong'' fresh)) \<and>
   \<not> fst (fst (verify_credentials demo_env ''bob@example.com'' ''s3cr3t'' fresh))"
  using success_iff_record_and_match [of demo_env "''alice@example.com''" "''s3cr3t''" fresh]
        success_iff_record_and_match [of demo_env "''alice@example.com''" "''wrong''" fresh]
        success_iff_record_and_match [of demo_env "''bob@example.com''" "''s3cr3t''" fresh]
  by (simp add: demo_lookup_alice demo_lookup_bob demo_hasher_accepts demo_hasher_rejects)

text \<open>
  C2. For every identifier for which the lookup yields no record, and for every
  secret, the result is \<^verbatim>\<open>(False, "User not found")\<close>; the secret has no influence, neither
  on the result nor on the calls made.
\<close>

theorem no_record_gives_not_found:
  assumes "store_lookup env email = Inr None"
  shows "fst (verify_credentials env email password w) = (False, Message ''User not found'')
         \<and> verify_credentials env email password w = verify_credentials env email password' w"
  using assms by (simp add: verify_no_row)

theorem no_record_gives_not_found_witness:
  "fst (verify_credentials demo_env ''bob@example.com'' ''s3cr3t'' fresh)
     = (False, Message ''User not found'')
   \<and> verify_credentials demo_env ''bob@example.com'' ''s3cr3t'' fresh
     = verify_credentials demo_env ''bob@example.com'' ''other'' fresh"
  by (rule no_record_gives_not_found [OF demo_lookup_bob])

text \<open>
  C3. For every record the lookup yields, a secret for which the hasher returns \<open>True\<close>
  against the record's stored hash gives \<^verbatim>\<open>(True, id)\<close>, where \<open>id\<close> is the \<open>id\<close> column of
  that very record.
\<close>

theorem matching_secret_gives_success:
  assumes "store_lookup env email = Inr (Some r)"
    and "pwd_verify_res env password (row_hashed_password r) = Inr True"
  shows "fst (verify_credentials env email password w) = (True, UserId (row_id r))"
  using assms by (simp add: verify_row)

theorem matching_secret_gives_success_witness:
  "fst (verify_credentials demo_env ''alice@example.com'' ''s3cr3t'' fresh) = (True, UserId 42)"
  using matching_secret_gives_success [OF demo_lookup_alice demo_hasher_accepts, of fresh]
  by (simp add: alice_def)

text \<open>
  C4. For every record the lookup yields, a secret for which the hasher returns \<open>False\<close>
  against the record's stored hash gives \<^verbatim>\<open>(False, "Incorrect password")\<close>.
\<close>

theorem wrong_secret_gives_bad_secret:
  assumes "store_lookup env email = Inr (Some r)"
    and "pwd_verify_res env password (row_hashed_password r) = Inr False"
  shows "fst (verify_credentials env email password w) = (False, Message ''Incorrect password'')"
  using assms by (simp add: verify_row)

theorem wrong_secret_gives_bad_secret_witness:
  "fst (verify_credentials demo_env ''alice@example.com'' ''wrong'' fresh)
     = (False, Message ''Incorrect password'')"
  by (rule wrong_secret_gives_bad_secret [OF demo_lookup_alice demo_hasher_rejects])

text \<open>
  C5. If a store call of the lookup raises, then for every identifier and secret the
  result is \<^verbatim>\<open>(False, "DB error: " + str(e))\<close> for the exception \<open>e\<close> raised, never a
  success, and it differs from both the not-found and the incorrect-password results,
  whatever the text of \<open>e\<close>.
\<close>

theorem store_failure_gives_store_error:
  assumes "store_lookup env email = Inl e"
  shows "fst (verify_credentials env email password w)
           = (False, Message (''DB error: '' @ str_of e))
         \<and> \<not> fst (fst (verify_credentials env email password w))
         \<and> fst (verify_credentials env email password w) \<noteq> (False, Message ''User not found'')
         \<and> fst (verify_credentials env email password w)
             \<noteq> (False, Message ''Incorrect password'')"
  using assms by (simp add: verify_store_raises)

theorem store_failure_gives_store_error_witness:
  "fst (verify_credentials unreachable_env ''alice@example.com'' ''s3cr3t'' fresh)
     = (False, Message ''DB error: 2003: cannot connect to MySQL server'')"
  using store_failure_gives_store_error [OF unreachable_lookup, of "''alice@example.com''" "''s3cr3t''" fresh]
  by simp

text \<open>
  C6. For every environment, identifier and secret, \<open>verify_credentials\<close> returns a
  pair, and the pair has one of four forms: \<^verbatim>\<open>(True, id)\<close>, \<^verbatim>\<open>(False, "User not found")\<close>,
  \<^verbatim>\<open>(False, "Incorrect password")\<close> or \<^verbatim>\<open>(False, "DB error: ...")\<close>. The second component
  is a user id exactly when the first is \<open>True\<close>. No exception leaves the function: every
  raise of a collaborator ends in the fourth form.
\<close>

theorem verify_result_shape:
  "((\<exists>uid. fst (verify_credentials env email password w) = (True, UserId uid))
    \<or> fst (verify_credentials env email password w) = (False, Message ''User not found'')
    \<or> fst (verify_credentials env email password w) = (False, Message ''Incorrect password'')
    \<or> (\<exists>e. fst (verify_credentials env email password w)
              = (False, Message (''DB error: '' @ str_of e))))
   \<and> (fst (fst (verify_credentials env email password w))
        \<longleftrightarrow> (\<exists>uid. snd (fst (verify_credentials env email password w)) = UserId uid))"
proof (cases "store_lookup env email")
  case (Inl e)
  then show ?thesis
    by (auto simp: verify_store_raises)
next
  case (Inr found)
  show ?thesis
  proof (cases found)
    case None
    with Inr show ?thesis
      by (simp add: verify_no_row)
  next
    case (Some r)
    with Inr show ?thesis
      by (cases "pwd_verify_res env password (row_hashed_password r)")
         (auto simp: verify_row)
  qed
qed

text \<open>
  C7. The claim: on every path on which the connection was acquired, also when the
  query or the fetch fails, the connection is released before the function returns.
  The script calls \<^verbatim>\<open>conn.close()\<close> only on the path where every earlier call returned.
  When \<^verbatim>\<open>execute\<close> raises after a successful \<^verbatim>\<open>connect\<close>, the handler returns the error
  result and \<^verbatim>\<open>close\<close> is never called: the connection is still open.
\<close>

theorem connection_left_open_on_query_error:
  "fst (verify_credentials query_fails_env ''alice@example.com'' ''s3cr3t'' fresh)
     = (False, Message ''DB error: 1146 (42S02): table smartbus.users does not exist'')
   \<and> conn_open (snd (verify_credentials query_fails_env ''alice@example.com'' ''s3cr3t'' fresh))
   \<and> trace (snd (verify_credentials query_fails_env ''alice@example.com'' ''s3cr3t'' fresh))
       = [Connect, Cursor, Execute select_user [''alice@example.com'']]"
  by (simp add: step_defs query_fails_env_def demo_env_def fresh_def)

text \<open>
  C8. \<open>verify_credentials\<close> hands both strings on as they are. Every statement it
  executes is the fixed \<^verbatim>\<open>SELECT\<close> with the identifier, unchanged, as its only parameter,
  and every call of the hasher gets the secret unchanged. Once connection and cursor
  are there the statement is executed with that identifier, and once the lookup has
  yielded a record the hasher is called with that secret and the record's hash.
\<close>

theorem verify_passes_strings_unchanged:
  "\<exists>calls. trace (snd (verify_credentials env email password w)) = trace w @ calls
     \<and> (\<forall>sql params. Execute sql params \<in> set calls \<longrightarrow> sql = select_user \<and> params = [email])
     \<and> (\<forall>p h. PwdVerify p h \<in> set calls \<longrightarrow> p = password)
     \<and> (connect_exn env = None \<and> cursor_exn env = None
          \<longrightarrow> Execute select_user [email] \<in> set calls)
     \<and> (\<forall>r. store_lookup env email = Inr (Some r)
          \<longrightarrow> PwdVerify password (row_hashed_password r) \<in> set calls)"
proof -
  let ?calls = "calls_made env email password"
  have 1: "trace (snd (verify_credentials env email password w)) = trace w @ ?calls"
    by (rule verify_trace)
  have 2: "\<forall>sql params. Execute sql params \<in> set ?calls \<longrightarrow> sql = select_user \<and> params = [email]"
    using calls_made_execute by blast
  have 3: "\<forall>p h. PwdVerify p h \<in> set ?calls \<longrightarrow> p = password"
    using calls_made_pwd_verify by blast
  have 4: "connect_exn env = None \<and> cursor_exn env = None
             \<longrightarrow> Execute select_user [email] \<in> set ?calls"
    using calls_made_has_execute by blast
  have 5: "\<forall>r. store_lookup env email = Inr (Some r)
             \<longrightarrow> PwdVerify password (row_hashed_password r) \<in> set ?calls"
    using calls_made_has_pwd_verify by blast
  from 1 2 3 4 5 show ?thesis
    by (intro exI [of _ ?calls] conjI)
qed

theorem verify_passes_strings_unchanged_witness:
  "Execute select_user ['' alice@example.com''] \<in>
     set (trace (snd (verify_credentials demo_env '' alice@example.com'' ''s3cr3t'' fresh)))
   \<and> PwdVerify ''s3cr3t '' (row_hashed_password alice) \<in>
     set (trace (snd (verify_credentials demo_env ''alice@example.com'' ''s3cr3t '' fresh)))"
proof
  have up: "connect_exn demo_env = None \<and> cursor_exn demo_env = None"
    by (simp add: demo_env_def)
  obtain calls where
    "trace (snd (verify_credentials demo_env '' alice@example.com'' ''s3cr3t'' fresh))
       = trace fresh @ calls"
    and "connect_exn demo_env = None \<and> cursor_exn demo_env = None
           \<longrightarrow> Execute select_user ['' alice@example.com''] \<in> set calls"
    using verify_passes_strings_unchanged [of demo_env "'' alice@example.com''" "''s3cr3t''" fresh]
    by blast
  with up show "Execute select_user ['' alice@example.com''] \<in>
     set (trace (snd (verify_credentials demo_env '' alice@example.com'' ''s3cr3t'' fresh)))"
    by simp
next
  obtain calls where
    "trace (snd (verify_credentials demo_env ''alice@example.com'' ''s3cr3t '' fresh))
       = trace fresh @ calls"
    and "\<forall>r. store_lookup demo_env ''alice@example.com'' = Inr (Some r)
           \<longrightarrow> PwdVerify ''s3cr3t '' (row_hashed_password r) \<in> set calls"
    using verify_passes_strings_unchanged [of demo_env "''alice@example.com''" "''s3cr3t ''" fresh]
    by blast
  with demo_lookup_alice show "PwdVerify ''s3cr3t '' (row_hashed_password alice) \<in>
     set (trace (snd (verify_credentials demo_env ''alice@example.com'' ''s3cr3t '' fresh)))"
    by simp
qed

text \<open>
  C9. If the lookup yields a record and the hasher raises on its stored hash instead
  of returning a boolean, the exception is caught and the result is
  \<^verbatim>\<open>(False, "DB error: " + str(e))\<close>: not a success, not the not-found result and not the
  incorrect-password result.
\<close>

theorem hasher_exception_gives_store_error:
  assumes "store_lookup env email = Inr (Some r)"
    and "pwd_verify_res env password (row_hashed_password r) = Inl e"
  shows "fst (verify_credentials env email password w)
           = (False, Message (''DB error: '' @ str_of e))
         \<and> \<not> fst (fst (verify_credentials env email password w))
         \<and> fst (verify_credentials env email password w) \<noteq> (False, Message ''User not found'')
         \<and> fst (verify_credentials env email password w)
             \<noteq> (False, Message ''Incorrect password'')"
  using assms by (simp add: verify_row)

theorem hasher_exception_gives_store_error_witness:
  "fst (verify_credentials demo_env ''carol@example.com'' ''s3cr3t'' fresh)
     = (False, Message ''DB error: hash could not be identified'')"
  using hasher_exception_gives_store_error [OF demo_lookup_carol demo_hasher_raises, of "''s3cr3t''" fresh]
  by simp

text \<open>
  C10. Whenever the lookup succeeds (all six store calls return), cursor and
  connection are closed before the hasher is called: the calls made are the six of
  the lookup, ending with the two \<^verbatim>\<open>close\<close> calls, followed by the hasher call if a record
  was found, and nothing is open at the end. Whenever the result is a success, the
  not-found result or the incorrect-password result, nothing is open when it is
  returned.
\<close>

theorem store_closed_before_hashing:
  "(\<forall>found. store_lookup env email = Inr found \<longrightarrow>
      trace (snd (verify_credentials env email password w))
        = trace w @ [Connect, Cursor, Execute select_user [email], Fetchone, CurClose, ConnClose]
          @ (case found of None \<Rightarrow> []
             | Some r \<Rightarrow> [PwdVerify password (row_hashed_password r)])
      \<and> \<not> conn_open (snd (verify_credentials env email password w))
      \<and> \<not> cur_open (snd (verify_credentials env email password w)))
   \<and> (fst (fst (verify_credentials env email password w))
        \<or> fst (verify_credentials env email password w) = (False, Message ''User not found'')
        \<or> fst (verify_credentials env email password w) = (False, Message ''Incorrect password'')
      \<longrightarrow> \<not> conn_open (snd (verify_credentials env email password w))
          \<and> \<not> cur_open (snd (verify_credentials env email password w)))"
proof (cases "store_lookup env email")
  case (Inl e)
  then show ?thesis
    by (simp add: verify_store_raises)
next
  case (Inr found)
  show ?thesis
  proof (cases found)
    case None
    with Inr show ?thesis
      by (simp add: verify_no_row lookup_calls_def)
  next
    case (Some r)
    with Inr show ?thesis
      by (simp add: verify_row lookup_calls_def)
  qed
qed

theorem store_closed_before_hashing_witness:
  "trace (snd (verify_credentials demo_env ''alice@example.com'' ''s3cr3t'' fresh))
     = [Connect, Cursor, Execute select_user [''alice@example.com''], Fetchone,
        CurClose, ConnClose, PwdVerify ''s3cr3t'' ''$2b$12$alice'']
   \<and> \<not> conn_open (snd (verify_credentials demo_env ''alice@example.com'' ''s3cr3t'' fresh))
   \<and> \<not> cur_open (snd (verify_credentials demo_env ''alice@example.com'' ''s3cr3t'' fresh))"
  using store_closed_before_hashing [of demo_env "''alice@example.com''" "''s3cr3t''" fresh]
  by (simp add: demo_lookup_alice fresh_def alice_def)

section \<open>The caller\<close>

text \<open>
  The trimming is the caller's: \<open>on_login\<close> strips both entry texts and calls
  \<open>verify_credentials\<close> with the stripped strings.
\<close>

lemma on_login_strips_then_verifies:
  "snd (on_login env entry_email entry_password w)
     = snd (verify_credentials env (py_strip entry_email) (py_strip entry_password) w)"
  by (simp add: on_login_def Let_def split: prod.splits)

lemma on_login_demo:
  "fst (on_login demo_env '' alice@example.com  '' ''s3cr3t '' fresh)
     = ShowInfo ''Success'' ''Logged in! user id: 42''"
  by code_simp

end
